theory Spec2Isabelle
  imports Complex_Main
begin

section \<open>Data model of \<open>tavus-pipecat.py\<close>\<close>

text \<open>
  The module wires vendor services into a pipeline and registers two event handlers.
  Python objects become records, the environment and the transport table become maps,
  exceptions become the left summand of a sum type, and the mutable objects the handlers
  close over (\<open>messages\<close>, \<open>rtvi\<close>, \<open>task\<close>) become fields of one session state that
  every handler takes and returns.
\<close>

datatype error =
    ConfigError string
  | ServiceError string

subsection \<open>Messages, the list store and the conversation context\<close>

text \<open>A conversation message is the Python dict \<open>{"role": ..., "content": ...}\<close>.\<close>

record message =
  role :: string
  content :: string

text \<open>
  Python lists are objects with identity. A list is named by a reference, and the store
  maps each reference to the current content of the list it names; two variables alias
  exactly when they hold the same reference.
\<close>

type_synonym ref = nat

type_synonym store = "ref \<Rightarrow> message list"

definition list_append :: "ref \<Rightarrow> message \<Rightarrow> store \<Rightarrow> store" where
  "list_append r m h = h(r := h r @ [m])"

record LLMContext =
  ctx_messages :: ref

text \<open>
  Modelled from the spec: the constructor \<open>LLMContext(messages)\<close> of the external
  framework is not part of the module. The spec has the context own the message
  sequence and share it by reference, and has the ready handler's append show up in the
  context (\<open>context becomes [P, greeting-directive]\<close>), so the constructor keeps the
  reference it is given and copies nothing.
\<close>

definition new_LLMContext :: "ref \<Rightarrow> LLMContext" where
  "new_LLMContext msgs = \<lparr>ctx_messages = msgs\<rparr>"

record LLMContextAggregatorPair =
  agg_context :: LLMContext

definition new_LLMContextAggregatorPair :: "LLMContext \<Rightarrow> LLMContextAggregatorPair" where
  "new_LLMContextAggregatorPair c = \<lparr>agg_context = c\<rparr>"

subsection \<open>Transport configuration (lines 57-83)\<close>

text \<open>The decimal literal \<open>0.2\<close> of \<open>stop_secs\<close> is kept exactly, as a rational.\<close>

record VADParams =
  stop_secs :: rat

datatype SileroVADAnalyzer = SileroVADAnalyzer VADParams

datatype SmartTurnParams = SmartTurnParams

datatype LocalSmartTurnAnalyzerV3 = LocalSmartTurnAnalyzerV3 SmartTurnParams

record TransportParams =
  audio_in_enabled :: bool
  audio_out_enabled :: bool
  video_out_enabled :: bool
  video_out_is_live :: bool
  video_out_width :: int
  video_out_height :: int
  vad_analyzer :: SileroVADAnalyzer
  turn_analyzer :: LocalSmartTurnAnalyzerV3

text \<open>The body of the \<open>lambda\<close> stored under \<open>"webrtc"\<close>; it runs only when called.\<close>

definition webrtc_params :: "unit \<Rightarrow> TransportParams" where
  "webrtc_params u =
     \<lparr>audio_in_enabled = True,
      audio_out_enabled = True,
      video_out_enabled = True,
      video_out_is_live = True,
      video_out_width = 1280,
      video_out_height = 720,
      vad_analyzer = SileroVADAnalyzer \<lparr>stop_secs = 2 / 10\<rparr>,
      turn_analyzer = LocalSmartTurnAnalyzerV3 SmartTurnParams\<rparr>"

definition transport_params :: "string \<rightharpoonup> (unit \<Rightarrow> TransportParams)" where
  "transport_params = [''webrtc'' \<mapsto> webrtc_params]"

record BaseTransport =
  transport_kind :: string
  transport_config :: TransportParams

record RunnerArguments =
  transport_arg :: string
  pipeline_idle_timeout_secs :: int
  handle_sigint :: bool

text \<open>
  Modelled from the spec: \<open>create_transport\<close> belongs to the external runner. The spec
  gives its contract: given a transport-kind identifier and a mapping from kind to
  zero-argument configuration builder, resolve and construct exactly one transport
  instance; unresolved kinds fail with a configuration error. The second component of
  the result lists the \<open>TransportParams\<close> objects that were built on the way, in order,
  so that what laziness avoids is visible.
\<close>

definition create_transport ::
  "RunnerArguments \<Rightarrow> (string \<rightharpoonup> (unit \<Rightarrow> TransportParams))
     \<Rightarrow> (error + BaseTransport) \<times> TransportParams list" where
  "create_transport runner_args tp =
     (case tp (transport_arg runner_args) of
        None \<Rightarrow> (Inl (ConfigError (transport_arg runner_args)), [])
      | Some builder \<Rightarrow>
          (let p = builder ()
           in (Inr \<lparr>transport_kind = transport_arg runner_args, transport_config = p\<rparr>, [p])))"

subsection \<open>Service clients (lines 104-128)\<close>

record DeepgramSTTService =
  stt_api_key :: "string option"

record CartesiaTTSService =
  tts_api_key :: "string option"
  voice_id :: string

record GoogleLLMService =
  llm_api_key :: "string option"

datatype ClientSession = ClientSession

record TavusVideoService =
  tavus_api_key :: "string option"
  replica_id :: "string option"
  http_session :: ClientSession

text \<open>
  The four constructors are vendor code. The module only calls them, so they are
  parameters of the model; each may raise, which is the \<open>Inl\<close> result.
\<close>

record services =
  mk_stt :: "string option \<Rightarrow> error + DeepgramSTTService"
  mk_tts :: "string option \<Rightarrow> string \<Rightarrow> error + CartesiaTTSService"
  mk_llm :: "string option \<Rightarrow> error + GoogleLLMService"
  mk_tavus :: "string option \<Rightarrow> string option \<Rightarrow> ClientSession \<Rightarrow> error + TavusVideoService"

text \<open>
  Modelled from the spec: the vendor constructors are not part of the module. Section 7
  has a missing or invalid credential surfaced immediately at startup, as a
  configuration error that comes from the collaborator; section 4.2 has each client
  otherwise keep what it is constructed with. Which credentials a vendor accepts is not
  known here, so it is the parameter \<open>valid\<close>. The replica identifier is an identifier,
  not a credential, and is kept as given.
\<close>

definition credential_ok :: "(string \<Rightarrow> bool) \<Rightarrow> string option \<Rightarrow> bool" where
  "credential_ok valid cred = (case cred of None \<Rightarrow> False | Some k \<Rightarrow> valid k)"

definition validating_services :: "(string \<Rightarrow> bool) \<Rightarrow> services" where
  "validating_services valid =
     \<lparr>mk_stt = (\<lambda>k.
        if credential_ok valid k then Inr \<lparr>stt_api_key = k\<rparr>
        else Inl (ConfigError ''DeepgramSTTService'')),
      mk_tts = (\<lambda>k v.
        if credential_ok valid k then Inr \<lparr>tts_api_key = k, voice_id = v\<rparr>
        else Inl (ConfigError ''CartesiaTTSService'')),
      mk_llm = (\<lambda>k.
        if credential_ok valid k then Inr \<lparr>llm_api_key = k\<rparr>
        else Inl (ConfigError ''GoogleLLMService'')),
      mk_tavus = (\<lambda>k r c.
        if credential_ok valid k
        then Inr \<lparr>tavus_api_key = k, replica_id = r, http_session = c\<rparr>
        else Inl (ConfigError ''TavusVideoService''))\<rparr>"

text \<open>
  A constructor call as the module makes it, with its arguments. The calls a run makes
  are kept in order, so that what a failed startup did and did not attempt can be read
  off the result.
\<close>

datatype ctor_call =
    NewDeepgramSTTService "string option"
  | NewCartesiaTTSService "string option" string
  | NewGoogleLLMService "string option"
  | NewTavusVideoService "string option" "string option" ClientSession

text \<open>What a recorded call raised, if it raised.\<close>

fun call_error :: "services \<Rightarrow> ctor_call \<Rightarrow> error option" where
  "call_error sdk (NewDeepgramSTTService k) =
     (case mk_stt sdk k of Inl e \<Rightarrow> Some e | Inr _ \<Rightarrow> None)"
| "call_error sdk (NewCartesiaTTSService k v) =
     (case mk_tts sdk k v of Inl e \<Rightarrow> Some e | Inr _ \<Rightarrow> None)"
| "call_error sdk (NewGoogleLLMService k) =
     (case mk_llm sdk k of Inl e \<Rightarrow> Some e | Inr _ \<Rightarrow> None)"
| "call_error sdk (NewTavusVideoService k r c) =
     (case mk_tavus sdk k r c of Inl e \<Rightarrow> Some e | Inr _ \<Rightarrow> None)"

text \<open>\<open>os.getenv(name)\<close> is a lookup that yields \<open>None\<close> for a missing variable.\<close>

type_synonym environ = "string \<rightharpoonup> string"

definition getenv :: "environ \<Rightarrow> string \<Rightarrow> string option" where
  "getenv env name = env name"

subsection \<open>Pipeline and task (lines 150-190)\<close>

datatype RTVIProcessor = RTVIProcessor

datatype processor =
    TransportInput BaseTransport
  | Rtvi RTVIProcessor
  | Stt DeepgramSTTService
  | UserAggregator LLMContext
  | Llm GoogleLLMService
  | Tts CartesiaTTSService
  | Tavus TavusVideoService
  | TransportOutput BaseTransport
  | AssistantAggregator LLMContext

definition transport_input :: "BaseTransport \<Rightarrow> processor" where
  "transport_input t = TransportInput t"

definition transport_output :: "BaseTransport \<Rightarrow> processor" where
  "transport_output t = TransportOutput t"

definition aggregator_user :: "LLMContextAggregatorPair \<Rightarrow> processor" where
  "aggregator_user p = UserAggregator (agg_context p)"

definition aggregator_assistant :: "LLMContextAggregatorPair \<Rightarrow> processor" where
  "aggregator_assistant p = AssistantAggregator (agg_context p)"

datatype stage_kind =
    KTransportInput | KRtvi | KStt | KUserAggregator | KLlm | KTts | KTavus
  | KTransportOutput | KAssistantAggregator

fun kind_of :: "processor \<Rightarrow> stage_kind" where
  "kind_of (TransportInput _) = KTransportInput"
| "kind_of (Rtvi _) = KRtvi"
| "kind_of (Stt _) = KStt"
| "kind_of (UserAggregator _) = KUserAggregator"
| "kind_of (Llm _) = KLlm"
| "kind_of (Tts _) = KTts"
| "kind_of (Tavus _) = KTavus"
| "kind_of (TransportOutput _) = KTransportOutput"
| "kind_of (AssistantAggregator _) = KAssistantAggregator"

record PipelineParams =
  audio_in_sample_rate :: int
  audio_out_sample_rate :: int
  enable_metrics :: bool
  enable_usage_metrics :: bool

datatype frame = LLMRunFrame

record PipelineTask =
  task_pipeline :: "processor list"
  task_params :: PipelineParams
  idle_timeout_secs :: int
  queued_frames :: "frame list"
  cancelled :: bool

record PipelineRunner =
  runner_handle_sigint :: bool

subsection \<open>The session state\<close>

text \<open>
  Calls on the objects the handlers close over are recorded in order, so that a claim
  about what a handler does, and in which order, can be read off the state.
\<close>

datatype effect =
    SetBotReady
  | MessagesAppend message
  | QueueFrames "frame list"
  | TaskCancel
  | UserAggregatorAppend message
  | AssistantAggregatorAppend message

record session =
  heap :: store
  messages :: ref
  llm_context :: LLMContext
  context_aggregator :: LLMContextAggregatorPair
  bot_ready :: bool
  task :: PipelineTask
  runner :: PipelineRunner
  effects :: "effect list"
  log_lines :: "string list"

text \<open>What the language-model stage reads: the list the context refers to.\<close>

definition context_messages :: "session \<Rightarrow> message list" where
  "context_messages s = heap s (ctx_messages (llm_context s))"

text \<open>What the Python variable \<open>messages\<close> of \<open>run_bot\<close> reads.\<close>

definition local_messages :: "session \<Rightarrow> message list" where
  "local_messages s = heap s (messages s)"

definition logger_info :: "string \<Rightarrow> session \<Rightarrow> session" where
  "logger_info line s = s\<lparr>log_lines := log_lines s @ [line]\<rparr>"

definition set_bot_ready :: "session \<Rightarrow> session" where
  "set_bot_ready s = s\<lparr>bot_ready := True, effects := effects s @ [SetBotReady]\<rparr>"

definition messages_append :: "message \<Rightarrow> session \<Rightarrow> session" where
  "messages_append m s =
     s\<lparr>heap := list_append (messages s) m (heap s),
       effects := effects s @ [MessagesAppend m]\<rparr>"

definition queue_frames :: "frame list \<Rightarrow> session \<Rightarrow> session" where
  "queue_frames fs s =
     s\<lparr>task := (task s)\<lparr>queued_frames := queued_frames (task s) @ fs\<rparr>,
       effects := effects s @ [QueueFrames fs]\<rparr>"

definition task_cancel :: "session \<Rightarrow> session" where
  "task_cancel s =
     s\<lparr>task := (task s)\<lparr>cancelled := True\<rparr>, effects := effects s @ [TaskCancel]\<rparr>"

subsection \<open>The two handlers (lines 194-220)\<close>

definition system_prompt :: message where
  "system_prompt =
     \<lparr>role = ''system'',
      content = ''You are a helpful LLM in a WebRTC call. Your goal is to demonstrate your capabilities in a succinct way. Your output will be converted to audio so don't include special characters in your answers. Respond to what the user said in a creative and helpful way.''\<rparr>"

definition greeting :: message where
  "greeting =
     \<lparr>role = ''system'',
      content = ''Start by greeting the user and ask how you can help.''\<rparr>"

definition on_client_ready :: "session \<Rightarrow> session" where
  "on_client_ready s =
     queue_frames [LLMRunFrame]
       (messages_append greeting
          (set_bot_ready
             (logger_info ''Client ready - setting bot ready'' s)))"

definition on_client_disconnected :: "session \<Rightarrow> session" where
  "on_client_disconnected s = task_cancel (logger_info ''Client disconnected'' s)"

subsection \<open>\<open>run_bot\<close> and \<open>bot\<close> (lines 86-246)\<close>

record clients =
  stt :: DeepgramSTTService
  tts :: CartesiaTTSService
  llm :: GoogleLLMService
  tavus :: TavusVideoService

text \<open>
  Lines 104-128: the four clients are constructed in this order, each from what
  \<open>os.getenv\<close> returns; the first constructor that raises ends \<open>run_bot\<close>, since the
  module catches nothing. The second component lists the constructor calls made.
\<close>

definition build_clients ::
  "services \<Rightarrow> environ \<Rightarrow> ClientSession \<Rightarrow> (error + clients) \<times> ctor_call list" where
  "build_clients sdk env sess =
     (let k1 = getenv env ''DEEPGRAM_API_KEY'';
          k2 = getenv env ''CARTESIA_API_KEY'';
          v2 = ''a167e0f3-df7e-4d52-a9c3-f949145efdab'';
          k3 = getenv env ''GOOGLE_API_KEY'';
          k4 = getenv env ''TAVUS_API_KEY'';
          r4 = getenv env ''TAVUS_REPLICA_ID''
      in
     (case mk_stt sdk k1 of
        Inl e \<Rightarrow> (Inl e, [NewDeepgramSTTService k1])
      | Inr c1 \<Rightarrow>
     (case mk_tts sdk k2 v2 of
        Inl e \<Rightarrow> (Inl e, [NewDeepgramSTTService k1, NewCartesiaTTSService k2 v2])
      | Inr c2 \<Rightarrow>
     (case mk_llm sdk k3 of
        Inl e \<Rightarrow>
          (Inl e,
           [NewDeepgramSTTService k1, NewCartesiaTTSService k2 v2, NewGoogleLLMService k3])
      | Inr c3 \<Rightarrow>
     (case mk_tavus sdk k4 r4 sess of
        Inl e \<Rightarrow>
          (Inl e,
           [NewDeepgramSTTService k1, NewCartesiaTTSService k2 v2, NewGoogleLLMService k3,
            NewTavusVideoService k4 r4 sess])
      | Inr c4 \<Rightarrow>
          (Inr \<lparr>stt = c1, tts = c2, llm = c3, tavus = c4\<rparr>,
           [NewDeepgramSTTService k1, NewCartesiaTTSService k2 v2, NewGoogleLLMService k3,
            NewTavusVideoService k4 r4 sess]))))))"

text \<open>
  Lines 130-224: the message list, the context, the aggregator pair, the pipeline, the
  task and the runner. The list \<open>messages\<close> is allocated at reference 0 of an otherwise
  empty store.
\<close>

definition build_session :: "BaseTransport \<Rightarrow> RunnerArguments \<Rightarrow> clients \<Rightarrow> session" where
  "build_session transport runner_args cl =
     (let msgs = (0 :: ref);
          h = (\<lambda>_. [])(msgs := [system_prompt]);
          ctx = new_LLMContext msgs;
          pair = new_LLMContextAggregatorPair ctx;
          rtvi = RTVIProcessor;
          pipeline =
            [transport_input transport,
             Rtvi rtvi,
             Stt (stt cl),
             aggregator_user pair,
             Llm (llm cl),
             Tts (tts cl),
             Tavus (tavus cl),
             transport_output transport,
             aggregator_assistant pair];
          tsk =
            \<lparr>task_pipeline = pipeline,
             task_params =
               \<lparr>audio_in_sample_rate = 16000,
                audio_out_sample_rate = 24000,
                enable_metrics = True,
                enable_usage_metrics = True\<rparr>,
             idle_timeout_secs = pipeline_idle_timeout_secs runner_args,
             queued_frames = [],
             cancelled = False\<rparr>
      in \<lparr>heap = h,
          messages = msgs,
          llm_context = ctx,
          context_aggregator = pair,
          bot_ready = False,
          task = tsk,
          runner = \<lparr>runner_handle_sigint = handle_sigint runner_args\<rparr>,
          effects = [],
          log_lines = [''Starting bot'']\<rparr>)"

text \<open>
  What reaches the session while the runner drives the task: the two signals the module
  subscribes to, and the finalized text that passes the two aggregator stages.
\<close>

datatype event =
    ClientReady
  | ClientDisconnected
  | UserTranscript string
  | AssistantReply string

text \<open>
  Modelled from the spec: the two aggregator stages are external. Section 4.3 has the
  user-side stage append a user message for a finalized transcribed text, and the
  assistant-side stage append an assistant message for a finalized model output, both
  into the one context instance they share.
\<close>

definition aggregator_append :: "LLMContext \<Rightarrow> message \<Rightarrow> session \<Rightarrow> session" where
  "aggregator_append c m s = s\<lparr>heap := list_append (ctx_messages c) m (heap s)\<rparr>"

definition user_aggregator_push :: "string \<Rightarrow> session \<Rightarrow> session" where
  "user_aggregator_push txt s =
     (let m = \<lparr>role = ''user'', content = txt\<rparr>
      in (aggregator_append (agg_context (context_aggregator s)) m s)
           \<lparr>effects := effects s @ [UserAggregatorAppend m]\<rparr>)"

definition assistant_aggregator_push :: "string \<Rightarrow> session \<Rightarrow> session" where
  "assistant_aggregator_push txt s =
     (let m = \<lparr>role = ''assistant'', content = txt\<rparr>
      in (aggregator_append (agg_context (context_aggregator s)) m s)
           \<lparr>effects := effects s @ [AssistantAggregatorAppend m]\<rparr>)"

fun dispatch :: "event \<Rightarrow> session \<Rightarrow> session" where
  "dispatch ClientReady s = on_client_ready s"
| "dispatch ClientDisconnected s = on_client_disconnected s"
| "dispatch (UserTranscript txt) s = user_aggregator_push txt s"
| "dispatch (AssistantReply txt) s = assistant_aggregator_push txt s"

text \<open>
  Modelled from the spec: \<open>runner.run(task)\<close> is external. The spec has the runner drive
  the task to completion or cancellation, and the session's entities live until the task
  is cancelled or completes; line 227 of the module says the same. Events are dispatched
  in arrival order while the task is not cancelled; once it is, \<open>run\<close> returns and the
  rest of the events find no session.
\<close>

fun runner_run :: "event list \<Rightarrow> session \<Rightarrow> session" where
  "runner_run [] s = s"
| "runner_run (e # es) s =
     (if cancelled (task s) then s else runner_run es (dispatch e s))"

text \<open>
  \<open>run_bot\<close> and \<open>bot\<close> return what the session came to, or the error that ended
  startup, together with the constructor calls made. A failed startup has no session:
  the pipeline was not built and no event was dispatched.
\<close>

definition run_bot ::
  "services \<Rightarrow> environ \<Rightarrow> BaseTransport \<Rightarrow> RunnerArguments \<Rightarrow> event list
     \<Rightarrow> (error + session) \<times> ctor_call list" where
  "run_bot sdk env transport runner_args evs =
     (case build_clients sdk env ClientSession of
        (Inl e, calls) \<Rightarrow> (Inl e, calls)
      | (Inr cl, calls) \<Rightarrow>
          (Inr (runner_run evs (build_session transport runner_args cl)), calls))"

definition bot ::
  "services \<Rightarrow> environ \<Rightarrow> RunnerArguments \<Rightarrow> event list
     \<Rightarrow> (error + session) \<times> ctor_call list" where
  "bot sdk env runner_args evs =
     (case fst (create_transport runner_args transport_params) of
        Inl e \<Rightarrow> (Inl e, [])
      | Inr transport \<Rightarrow> run_bot sdk env transport runner_args evs)"

subsection \<open>Sample inputs\<close>

text \<open>Concrete inputs at which the statements below are evaluated.\<close>

definition sample_args :: RunnerArguments where
  "sample_args =
     \<lparr>transport_arg = ''webrtc'', pipeline_idle_timeout_secs = 300, handle_sigint = True\<rparr>"

definition daily_args :: RunnerArguments where
  "daily_args =
     \<lparr>transport_arg = ''daily'', pipeline_idle_timeout_secs = 300, handle_sigint = True\<rparr>"

definition sample_transport :: BaseTransport where
  "sample_transport = \<lparr>transport_kind = ''webrtc'', transport_config = webrtc_params ()\<rparr>"

definition sample_env :: environ where
  "sample_env =
     [''DEEPGRAM_API_KEY'' \<mapsto> ''dg-key'',
      ''CARTESIA_API_KEY'' \<mapsto> ''ca-key'',
      ''GOOGLE_API_KEY'' \<mapsto> ''go-key'',
      ''TAVUS_API_KEY'' \<mapsto> ''tv-key'',
      ''TAVUS_REPLICA_ID'' \<mapsto> ''r-1'']"

definition not_revoked :: "string \<Rightarrow> bool" where
  "not_revoked k = (k \<noteq> ''revoked'')"

definition sample_clients :: clients where
  "sample_clients =
     \<lparr>stt = \<lparr>stt_api_key = Some ''dg-key''\<rparr>,
      tts = \<lparr>tts_api_key = Some ''ca-key'',
             voice_id = ''a167e0f3-df7e-4d52-a9c3-f949145efdab''\<rparr>,
      llm = \<lparr>llm_api_key = Some ''go-key''\<rparr>,
      tavus = \<lparr>tavus_api_key = Some ''tv-key'', replica_id = Some ''r-1'',
               http_session = ClientSession\<rparr>\<rparr>"

definition sample_session :: session where
  "sample_session = build_session sample_transport sample_args sample_clients"

text \<open>
  The list the module calls \<open>messages\<close>, the list of the context and the list of the
  aggregator pair's context are one object.
\<close>

definition aliased :: "session \<Rightarrow> bool" where
  "aliased s =
     (messages s = ctx_messages (llm_context s) \<and>
      ctx_messages (agg_context (context_aggregator s)) = ctx_messages (llm_context s))"

text \<open>
  A session in which the greeting has not been requested: the ready handler has left no
  trace in the context, in the task's queue, in the readiness flag or among the calls.
\<close>

definition ungreeted :: "session \<Rightarrow> bool" where
  "ungreeted s =
     (greeting \<notin> set (context_messages s) \<and>
      queued_frames (task s) = [] \<and>
      \<not> bot_ready s \<and>
      MessagesAppend greeting \<notin> set (effects s) \<and>
      QueueFrames [LLMRunFrame] \<notin> set (effects s))"

section \<open>Properties\<close>

subsection \<open>Auxiliary facts\<close>

lemmas call_defs =
  logger_info_def set_bot_ready_def messages_append_def queue_frames_def task_cancel_def
  aggregator_append_def list_append_def Let_def

lemmas handler_defs =
  on_client_ready_def on_client_disconnected_def user_aggregator_push_def
  assistant_aggregator_push_def

lemma aliased_build_session: "aliased (build_session t a cl)"
  by (simp add: aliased_def build_session_def new_LLMContext_def
      new_LLMContextAggregatorPair_def Let_def)

lemma aliased_dispatch: "aliased s \<Longrightarrow> aliased (dispatch e s)"
  by (cases e) (simp_all add: aliased_def handler_defs call_defs)

lemma aliased_runner_run: "aliased s \<Longrightarrow> aliased (runner_run evs s)"
  by (induction evs arbitrary: s) (simp_all add: aliased_dispatch)

lemma aliased_reachable: "aliased (runner_run evs (build_session t a cl))"
  by (rule aliased_runner_run) (rule aliased_build_session)

lemma runner_run_cancelled: "cancelled (task s) \<Longrightarrow> runner_run evs s = s"
  by (cases evs) simp_all

lemma runner_run_append: "runner_run (evs @ rest) s = runner_run rest (runner_run evs s)"
  by (induction evs arbitrary: s) (simp_all add: runner_run_cancelled)

lemma context_on_client_ready:
  "aliased s \<Longrightarrow> context_messages (on_client_ready s) = context_messages s @ [greeting]"
  by (simp add: aliased_def context_messages_def handler_defs call_defs)

lemma context_on_client_disconnected:
  "context_messages (on_client_disconnected s) = context_messages s"
  by (simp add: context_messages_def handler_defs call_defs)

lemma context_user_aggregator_push:
  "aliased s \<Longrightarrow>
   context_messages (user_aggregator_push txt s) =
     context_messages s @ [\<lparr>role = ''user'', content = txt\<rparr>]"
  by (simp add: aliased_def context_messages_def handler_defs call_defs)

lemma context_assistant_aggregator_push:
  "aliased s \<Longrightarrow>
   context_messages (assistant_aggregator_push txt s) =
     context_messages s @ [\<lparr>role = ''assistant'', content = txt\<rparr>]"
  by (simp add: aliased_def context_messages_def handler_defs call_defs)

lemma aliased_on_client_ready: "aliased s \<Longrightarrow> aliased (on_client_ready s)"
  using aliased_dispatch [of s ClientReady] by simp

lemma context_on_client_ready_funpow:
  "aliased s \<Longrightarrow>
   aliased ((on_client_ready ^^ n) s) \<and>
   context_messages ((on_client_ready ^^ n) s) = context_messages s @ replicate n greeting"
proof (induction n)
  case 0
  then show ?case by simp
next
  case (Suc n)
  then have al: "aliased ((on_client_ready ^^ n) s)"
    and eq: "context_messages ((on_client_ready ^^ n) s) = context_messages s @ replicate n greeting"
    by simp_all
  show ?case
    using aliased_on_client_ready [OF al] context_on_client_ready [OF al] eq
    by (simp add: replicate_append_same)
qed

lemma context_build_session: "context_messages (build_session t a cl) = [system_prompt]"
  by (simp add: context_messages_def build_session_def new_LLMContext_def Let_def)

lemma context_dispatch_extends:
  "aliased s \<Longrightarrow> \<exists>ys. context_messages (dispatch e s) = context_messages s @ ys"
  by (cases e)
    (simp_all add: context_on_client_ready context_on_client_disconnected
      context_user_aggregator_push context_assistant_aggregator_push)

lemma context_runner_run_extends:
  "aliased s \<Longrightarrow> \<exists>ys. context_messages (runner_run evs s) = context_messages s @ ys"
proof (induction evs arbitrary: s)
  case Nil
  then show ?case by simp
next
  case (Cons e es)
  show ?case
  proof (cases "cancelled (task s)")
    case True
    then show ?thesis by simp
  next
    case False
    from Cons.prems obtain ys where
      1: "context_messages (dispatch e s) = context_messages s @ ys"
      using context_dispatch_extends by blast
    from Cons.IH [OF aliased_dispatch [OF Cons.prems]] obtain zs where
      2: "context_messages (runner_run es (dispatch e s)) = context_messages (dispatch e s) @ zs"
      by blast
    from False 1 2 show ?thesis by simp
  qed
qed

lemma task_static_dispatch:
  "task_pipeline (task (dispatch e s)) = task_pipeline (task s) \<and>
   task_params (task (dispatch e s)) = task_params (task s)"
  by (cases e) (simp_all add: handler_defs call_defs)

lemma task_static_runner_run:
  "task_pipeline (task (runner_run evs s)) = task_pipeline (task s) \<and>
   task_params (task (runner_run evs s)) = task_params (task s)"
  by (induction evs arbitrary: s) (simp_all add: task_static_dispatch)

subsection \<open>The ready handler\<close>

text \<open>
  C2. When the client-ready signal is received, \<open>on_client_ready\<close> signals bot-readiness,
  appends one system-role message that directs the model to greet the user, and enqueues
  one \<open>LLMRunFrame\<close> on the task, in this order: the calls it makes on the session's
  objects are exactly \<open>set_bot_ready\<close>, the append and \<open>queue_frames\<close>. Every other
  field of the session is left as it was, apart from the line the handler logs first.
\<close>

theorem on_client_ready_effects:
  "on_client_ready s =
     s\<lparr>log_lines := log_lines s @ [''Client ready - setting bot ready''],
       bot_ready := True,
       heap := (heap s)(messages s := heap s (messages s) @ [greeting]),
       task := (task s)\<lparr>queued_frames := queued_frames (task s) @ [LLMRunFrame]\<rparr>,
       effects := effects s @ [SetBotReady, MessagesAppend greeting, QueueFrames [LLMRunFrame]]\<rparr>
   \<and> role greeting = ''system''
   \<and> content greeting = ''Start by greeting the user and ask how you can help.''"
  by (simp add: on_client_ready_def call_defs greeting_def)

subsection \<open>The pipeline and the task parameters\<close>

text \<open>
  C3. The pipeline that \<open>run_bot\<close> builds is the sequence of exactly nine stages transport
  input, RTVI processor, speech-to-text, user-side aggregator, language model,
  text-to-speech, video-avatar service, transport output, assistant-side aggregator, each
  holding the object it was built from, and no event of the session changes it.
\<close>

theorem pipeline_nine_stages:
  "task_pipeline (task (runner_run evs (build_session t a cl))) =
     [TransportInput t, Rtvi RTVIProcessor, Stt (stt cl),
      UserAggregator (new_LLMContext 0), Llm (llm cl), Tts (tts cl), Tavus (tavus cl),
      TransportOutput t, AssistantAggregator (new_LLMContext 0)]
   \<and> map kind_of (task_pipeline (task (runner_run evs (build_session t a cl)))) =
     [KTransportInput, KRtvi, KStt, KUserAggregator, KLlm, KTts, KTavus,
      KTransportOutput, KAssistantAggregator]
   \<and> length (task_pipeline (task (runner_run evs (build_session t a cl)))) = 9"
  by (simp add: task_static_runner_run build_session_def Let_def transport_input_def
      transport_output_def aggregator_user_def aggregator_assistant_def
      new_LLMContextAggregatorPair_def)

text \<open>
  C4, as the module has it. The task's audio sample rates are fixed, but they are not
  the same: the input rate is 16000 and the output rate is 24000, for every transport,
  every argument record and every course of the session.
\<close>

theorem sample_rates_fixed:
  "audio_in_sample_rate (task_params (task (runner_run evs (build_session t a cl)))) = 16000
   \<and> audio_out_sample_rate (task_params (task (runner_run evs (build_session t a cl)))) = 24000"
  by (simp add: task_static_runner_run build_session_def Let_def)

text \<open>The claim as stated, equal input and output rates, fails on the sample session.\<close>

theorem sample_rates_differ:
  "audio_in_sample_rate (task_params (task sample_session))
     \<noteq> audio_out_sample_rate (task_params (task sample_session))"
  by (simp add: sample_session_def build_session_def Let_def)

subsection \<open>Transport selection\<close>

text \<open>
  C9. The transport table has the one key \<open>"webrtc"\<close>. For every other transport kind,
  selection fails with a configuration error, and neither a transport nor a
  \<open>TransportParams\<close> object is constructed. For \<open>"webrtc"\<close>, exactly one transport is
  constructed, from the one \<open>TransportParams\<close> object that calling the builder yields.
\<close>

theorem transport_selection:
  "dom transport_params = {''webrtc''}
   \<and> (transport_arg a \<noteq> ''webrtc'' \<longrightarrow>
        create_transport a transport_params = (Inl (ConfigError (transport_arg a)), []))
   \<and> (transport_arg a = ''webrtc'' \<longrightarrow>
        create_transport a transport_params =
          (Inr \<lparr>transport_kind = ''webrtc'', transport_config = webrtc_params ()\<rparr>,
           [webrtc_params ()]))"
  by (auto simp add: create_transport_def transport_params_def Let_def)

theorem transport_selection_witness:
  "transport_arg daily_args \<noteq> ''webrtc''
   \<and> create_transport daily_args transport_params = (Inl (ConfigError ''daily''), [])
   \<and> transport_arg sample_args = ''webrtc''
   \<and> create_transport sample_args transport_params = (Inr sample_transport, [webrtc_params ()])"
  using transport_selection [of daily_args] transport_selection [of sample_args]
  by (simp add: daily_args_def sample_args_def sample_transport_def)

subsection \<open>The greeting directive\<close>

text \<open>
  C1, as the module has it. The ready handler is not idempotent: it has no guard, and
  every invocation appends one more greeting directive to the conversation context.
  After any course of a session, \<open>n\<close> further invocations leave \<open>n\<close> further copies at
  the end of the context; on a fresh session they leave the system prompt followed by
  \<open>n\<close> directives.
\<close>

theorem greeting_appended_per_invocation:
  "context_messages ((on_client_ready ^^ n) (runner_run evs (build_session t a cl))) =
     context_messages (runner_run evs (build_session t a cl)) @ replicate n greeting
   \<and> context_messages ((on_client_ready ^^ n) (build_session t a cl)) =
     system_prompt # replicate n greeting"
  using context_on_client_ready_funpow [OF aliased_reachable, of n evs t a cl]
    context_on_client_ready_funpow [OF aliased_build_session, of n t a cl]
  by (simp add: context_build_session)

text \<open>
  The claim as stated, that a second invocation leaves the context as the first one left
  it, fails on the sample session: the second invocation appends a second directive.
\<close>

theorem greeting_not_idempotent:
  "context_messages (on_client_ready (on_client_ready sample_session))
     = [system_prompt, greeting, greeting]
   \<and> context_messages (on_client_ready sample_session) = [system_prompt, greeting]
   \<and> context_messages (on_client_ready (on_client_ready sample_session))
     \<noteq> context_messages (on_client_ready sample_session)"
  using context_on_client_ready_funpow [of sample_session 2]
    context_on_client_ready_funpow [of sample_session 1]
    aliased_build_session [of sample_transport sample_args sample_clients]
    context_build_session [of sample_transport sample_args sample_clients]
  by (simp add: sample_session_def numeral_2_eq_2)

subsection \<open>Writers of the conversation context\<close>

text \<open>
  C6, as the module has it. In every state a session reaches, the conversation context
  has three writers, each of which appends one entry of its own role: the ready handler
  a system entry (the greeting directive), the user-side aggregator a user entry, and
  the assistant-side aggregator an assistant entry. The disconnect handler does not
  write to it.
\<close>

theorem context_writers:
  "context_messages (dispatch e (runner_run evs (build_session t a cl))) =
     context_messages (runner_run evs (build_session t a cl)) @
       (case e of
          ClientReady \<Rightarrow> [greeting]
        | ClientDisconnected \<Rightarrow> []
        | UserTranscript txt \<Rightarrow> [\<lparr>role = ''user'', content = txt\<rparr>]
        | AssistantReply txt \<Rightarrow> [\<lparr>role = ''assistant'', content = txt\<rparr>])
   \<and> role greeting = ''system''"
  using aliased_reachable [of evs t a cl]
  by (cases e)
    (simp_all add: context_on_client_ready context_on_client_disconnected
      context_user_aggregator_push context_assistant_aggregator_push greeting_def)

text \<open>
  The claim as stated, that nothing but the two aggregators writes to the context, fails
  on the sample session: the ready signal alone, with no aggregator involved, changes
  the context, and the entry it adds has the system role.
\<close>

theorem ready_handler_writes_context:
  "effects (runner_run [ClientReady] sample_session) =
     [SetBotReady, MessagesAppend greeting, QueueFrames [LLMRunFrame]]
   \<and> context_messages (runner_run [ClientReady] sample_session) = [system_prompt, greeting]
   \<and> context_messages sample_session = [system_prompt]
   \<and> role greeting \<noteq> ''user'' \<and> role greeting \<noteq> ''assistant''"
  by (simp add: sample_session_def build_session_def new_LLMContext_def
      new_LLMContextAggregatorPair_def context_messages_def on_client_ready_def call_defs
      greeting_def)

subsection \<open>Disconnect before ready\<close>

lemma ungreeted_build_session: "ungreeted (build_session t a cl)"
  by (simp add: ungreeted_def context_messages_def build_session_def new_LLMContext_def
      Let_def system_prompt_def greeting_def)

lemma ungreeted_on_client_disconnected:
  "ungreeted s \<Longrightarrow>
   ungreeted (on_client_disconnected s) \<and> cancelled (task (on_client_disconnected s)) \<and>
   TaskCancel \<in> set (effects (on_client_disconnected s))"
  by (simp add: ungreeted_def context_messages_def handler_defs call_defs)

lemma ungreeted_user_aggregator_push:
  "ungreeted s \<Longrightarrow> aliased s \<Longrightarrow>
   ungreeted (user_aggregator_push txt s) \<and>
   cancelled (task (user_aggregator_push txt s)) = cancelled (task s)"
  by (simp add: ungreeted_def aliased_def context_messages_def handler_defs call_defs
      greeting_def)

lemma ungreeted_assistant_aggregator_push:
  "ungreeted s \<Longrightarrow> aliased s \<Longrightarrow>
   ungreeted (assistant_aggregator_push txt s) \<and>
   cancelled (task (assistant_aggregator_push txt s)) = cancelled (task s)"
  by (simp add: ungreeted_def aliased_def context_messages_def handler_defs call_defs
      greeting_def)

lemma ungreeted_runner_run:
  "ungreeted s \<Longrightarrow> aliased s \<Longrightarrow> \<not> cancelled (task s) \<Longrightarrow>
   ClientDisconnected \<in> set evs \<Longrightarrow>
   ClientReady \<notin> set (takeWhile (\<lambda>e. e \<noteq> ClientDisconnected) evs) \<Longrightarrow>
   ungreeted (runner_run evs s) \<and> cancelled (task (runner_run evs s)) \<and>
   TaskCancel \<in> set (effects (runner_run evs s))"
proof (induction evs arbitrary: s)
  case Nil
  then show ?case by simp
next
  case (Cons e es)
  show ?case
  proof (cases e)
    case ClientReady
    with Cons.prems show ?thesis by simp
  next
    case ClientDisconnected
    with Cons.prems ungreeted_on_client_disconnected [of s] show ?thesis
      by (simp add: runner_run_cancelled)
  next
    case (UserTranscript u)
    with Cons.prems have step:
      "ungreeted (dispatch e s)" "aliased (dispatch e s)" "\<not> cancelled (task (dispatch e s))"
      using ungreeted_user_aggregator_push [of s u] aliased_dispatch [of s e] by simp_all
    from UserTranscript Cons.prems have rest:
      "ClientDisconnected \<in> set es"
      "ClientReady \<notin> set (takeWhile (\<lambda>e. e \<noteq> ClientDisconnected) es)"
      by simp_all
    from Cons.IH [OF step rest] Cons.prems show ?thesis by simp
  next
    case (AssistantReply u)
    with Cons.prems have step:
      "ungreeted (dispatch e s)" "aliased (dispatch e s)" "\<not> cancelled (task (dispatch e s))"
      using ungreeted_assistant_aggregator_push [of s u] aliased_dispatch [of s e] by simp_all
    from AssistantReply Cons.prems have rest:
      "ClientDisconnected \<in> set es"
      "ClientReady \<notin> set (takeWhile (\<lambda>e. e \<noteq> ClientDisconnected) es)"
      by simp_all
    from Cons.IH [OF step rest] Cons.prems show ?thesis by simp
  qed
qed

lemma not_cancelled_build_session: "\<not> cancelled (task (build_session t a cl))"
  by (simp add: build_session_def Let_def)

text \<open>
  C5. The disconnect handler cancels the task whatever the state of the session. In
  every session in which the client-disconnect signal arrives before any client-ready
  signal, the task ends cancelled, the greeting directive is never appended to the
  conversation context, and no \<open>LLMRunFrame\<close> is ever enqueued: the runner returns at
  the cancellation, so whatever arrives after it no longer reaches the handlers.
\<close>

theorem disconnect_before_ready:
  assumes "ClientDisconnected \<in> set evs"
    and "ClientReady \<notin> set (takeWhile (\<lambda>e. e \<noteq> ClientDisconnected) evs)"
  shows "cancelled (task (on_client_disconnected s))
    \<and> cancelled (task (runner_run evs (build_session t a cl)))
    \<and> TaskCancel \<in> set (effects (runner_run evs (build_session t a cl)))
    \<and> greeting \<notin> set (context_messages (runner_run evs (build_session t a cl)))
    \<and> MessagesAppend greeting \<notin> set (effects (runner_run evs (build_session t a cl)))
    \<and> queued_frames (task (runner_run evs (build_session t a cl))) = []
    \<and> QueueFrames [LLMRunFrame] \<notin> set (effects (runner_run evs (build_session t a cl)))"
proof -
  have "cancelled (task (on_client_disconnected s))"
    by (simp add: handler_defs call_defs)
  moreover from ungreeted_runner_run [OF ungreeted_build_session aliased_build_session
      not_cancelled_build_session assms]
  have "ungreeted (runner_run evs (build_session t a cl))
    \<and> cancelled (task (runner_run evs (build_session t a cl)))
    \<and> TaskCancel \<in> set (effects (runner_run evs (build_session t a cl)))" .
  ultimately show ?thesis by (simp add: ungreeted_def)
qed

theorem disconnect_before_ready_witness:
  "ClientDisconnected \<in> set [UserTranscript ''hello'', ClientDisconnected, ClientReady]
   \<and> ClientReady \<notin> set (takeWhile (\<lambda>e. e \<noteq> ClientDisconnected)
        [UserTranscript ''hello'', ClientDisconnected, ClientReady])
   \<and> cancelled (task (runner_run [UserTranscript ''hello'', ClientDisconnected, ClientReady]
        sample_session))
   \<and> greeting \<notin> set (context_messages
        (runner_run [UserTranscript ''hello'', ClientDisconnected, ClientReady] sample_session))
   \<and> queued_frames (task (runner_run [UserTranscript ''hello'', ClientDisconnected, ClientReady]
        sample_session)) = []"
  using disconnect_before_ready
    [of "[UserTranscript ''hello'', ClientDisconnected, ClientReady]" sample_session
      sample_transport sample_args sample_clients]
  by (simp add: sample_session_def)

subsection \<open>Startup and credentials\<close>

lemma not_credential_ok:
  "\<forall>k. c = Some k \<longrightarrow> \<not> valid k \<Longrightarrow> \<not> credential_ok valid c"
  by (cases c) (simp_all add: credential_ok_def)

lemma isl_build_clients_validating:
  "isl (fst (build_clients (validating_services valid) env sess)) =
     (\<not> (credential_ok valid (env ''DEEPGRAM_API_KEY'')
         \<and> credential_ok valid (env ''CARTESIA_API_KEY'')
         \<and> credential_ok valid (env ''GOOGLE_API_KEY'')
         \<and> credential_ok valid (env ''TAVUS_API_KEY'')))"
  by (simp add: build_clients_def validating_services_def getenv_def Let_def)

lemma run_bot_failed:
  "isl (fst (build_clients sdk env ClientSession)) \<Longrightarrow>
   run_bot sdk env t a evs = run_bot sdk env t a []"
  by (auto simp add: run_bot_def split: prod.splits sum.splits)

lemma isl_run_bot:
  "isl (fst (run_bot sdk env t a evs)) = isl (fst (build_clients sdk env ClientSession))"
  by (simp add: run_bot_def split: prod.splits sum.splits)

lemma calls_run_bot:
  "snd (run_bot sdk env t a evs) = snd (build_clients sdk env ClientSession)"
  by (simp add: run_bot_def split: prod.splits sum.splits)

lemma calls_build_clients:
  "\<exists>rest. snd (build_clients sdk env sess) @ rest =
     [NewDeepgramSTTService (getenv env ''DEEPGRAM_API_KEY''),
      NewCartesiaTTSService (getenv env ''CARTESIA_API_KEY'')
        ''a167e0f3-df7e-4d52-a9c3-f949145efdab'',
      NewGoogleLLMService (getenv env ''GOOGLE_API_KEY''),
      NewTavusVideoService (getenv env ''TAVUS_API_KEY'') (getenv env ''TAVUS_REPLICA_ID'')
        sess]"
  by (simp add: build_clients_def Let_def split: sum.splits)

lemma failed_call_is_last:
  "fst (build_clients sdk env sess) = Inl e \<Longrightarrow>
   map (call_error sdk) (snd (build_clients sdk env sess)) =
     replicate (length (snd (build_clients sdk env sess)) - 1) None @ [Some e]"
  by (simp add: build_clients_def Let_def split: sum.splits)

text \<open>
  C7. Configuration errors are fatal at startup, with no retry. If the environment holds
  no valid credential under one of the four credential variables, because the variable
  is missing or because the vendor does not accept its value, \<open>run_bot\<close> and \<open>bot\<close> end
  with an error and no session, whatever events would have followed: the pipeline never
  runs. No constructor is called twice and none is called after the one that raised:
  the calls made are an initial part of the four calls in source order, the last of
  them raised the error that is the result, and the ones before it raised nothing. An
  unknown transport kind ends \<open>bot\<close> with a configuration error before any client
  constructor is called.
\<close>

theorem missing_credential_fails_startup:
  assumes "name \<in> {''DEEPGRAM_API_KEY'', ''CARTESIA_API_KEY'', ''GOOGLE_API_KEY'',
      ''TAVUS_API_KEY''}"
    and "\<forall>k. env name = Some k \<longrightarrow> \<not> valid k"
  shows "isl (fst (run_bot (validating_services valid) env t a evs))
    \<and> isl (fst (bot (validating_services valid) env a evs))
    \<and> run_bot (validating_services valid) env t a evs =
        run_bot (validating_services valid) env t a []
    \<and> (\<exists>rest. snd (run_bot sdk env t a evs) @ rest =
         [NewDeepgramSTTService (getenv env ''DEEPGRAM_API_KEY''),
          NewCartesiaTTSService (getenv env ''CARTESIA_API_KEY'')
            ''a167e0f3-df7e-4d52-a9c3-f949145efdab'',
          NewGoogleLLMService (getenv env ''GOOGLE_API_KEY''),
          NewTavusVideoService (getenv env ''TAVUS_API_KEY'')
            (getenv env ''TAVUS_REPLICA_ID'') ClientSession])
    \<and> (\<forall>e. fst (run_bot sdk env t a evs) = Inl e \<longrightarrow>
         map (call_error sdk) (snd (run_bot sdk env t a evs)) =
           replicate (length (snd (run_bot sdk env t a evs)) - 1) None @ [Some e])
    \<and> (transport_params (transport_arg a) = None \<longrightarrow>
         bot sdk env a evs = (Inl (ConfigError (transport_arg a)), []))"
proof -
  from assms have bad: "\<not> credential_ok valid (env name)"
    by (simp add: not_credential_ok)
  with assms(1) have failed:
    "isl (fst (build_clients (validating_services valid) env ClientSession))"
    by (auto simp add: isl_build_clients_validating)
  then have 1: "isl (fst (run_bot (validating_services valid) env t a evs))" for t evs
    by (simp add: isl_run_bot)
  have 2: "isl (fst (bot (validating_services valid) env a evs))"
    using 1 by (simp add: bot_def split: sum.splits)
  have 3: "run_bot (validating_services valid) env t a evs =
      run_bot (validating_services valid) env t a []"
    by (rule run_bot_failed [OF failed])
  have 4: "\<exists>rest. snd (run_bot sdk env t a evs) @ rest =
      [NewDeepgramSTTService (getenv env ''DEEPGRAM_API_KEY''),
       NewCartesiaTTSService (getenv env ''CARTESIA_API_KEY'')
         ''a167e0f3-df7e-4d52-a9c3-f949145efdab'',
       NewGoogleLLMService (getenv env ''GOOGLE_API_KEY''),
       NewTavusVideoService (getenv env ''TAVUS_API_KEY'')
         (getenv env ''TAVUS_REPLICA_ID'') ClientSession]"
    using calls_build_clients [of sdk env ClientSession] by (simp add: calls_run_bot)
  have 5: "\<forall>e. fst (run_bot sdk env t a evs) = Inl e \<longrightarrow>
      map (call_error sdk) (snd (run_bot sdk env t a evs)) =
        replicate (length (snd (run_bot sdk env t a evs)) - 1) None @ [Some e]"
  proof (intro allI impI)
    fix e
    assume "fst (run_bot sdk env t a evs) = Inl e"
    then have "fst (build_clients sdk env ClientSession) = Inl e"
      by (auto simp add: run_bot_def split: prod.splits sum.splits)
    from failed_call_is_last [OF this]
    show "map (call_error sdk) (snd (run_bot sdk env t a evs)) =
        replicate (length (snd (run_bot sdk env t a evs)) - 1) None @ [Some e]"
      by (simp add: calls_run_bot)
  qed
  have 6: "transport_params (transport_arg a) = None \<longrightarrow>
      bot sdk env a evs = (Inl (ConfigError (transport_arg a)), [])"
    by (simp add: bot_def create_transport_def)
  from 1 2 3 4 5 6 show ?thesis by blast
qed

text \<open>
  Three startups, with a vendor that accepts every key but \<open>revoked\<close>: one with the
  Cartesia key missing, one with the Google key revoked, one with an unknown transport
  kind. The full sample environment starts the sample session.
\<close>

theorem missing_credential_fails_startup_witness:
  "(sample_env(''CARTESIA_API_KEY'' := None)) ''CARTESIA_API_KEY'' = None
   \<and> run_bot (validating_services not_revoked) (sample_env(''CARTESIA_API_KEY'' := None))
       sample_transport sample_args [ClientReady] =
       (Inl (ConfigError ''CartesiaTTSService''),
        [NewDeepgramSTTService (Some ''dg-key''),
         NewCartesiaTTSService None ''a167e0f3-df7e-4d52-a9c3-f949145efdab''])
   \<and> (sample_env(''GOOGLE_API_KEY'' \<mapsto> ''revoked'')) ''GOOGLE_API_KEY'' = Some ''revoked''
   \<and> \<not> not_revoked ''revoked''
   \<and> isl (fst (bot (validating_services not_revoked)
       (sample_env(''GOOGLE_API_KEY'' \<mapsto> ''revoked'')) sample_args [ClientReady]))
   \<and> transport_params (transport_arg daily_args) = None
   \<and> bot (validating_services not_revoked) sample_env daily_args [ClientReady] =
       (Inl (ConfigError ''daily''), [])
   \<and> fst (run_bot (validating_services not_revoked) sample_env sample_transport sample_args [])
       = Inr sample_session"
  using missing_credential_fails_startup
      [of "''CARTESIA_API_KEY''" "sample_env(''CARTESIA_API_KEY'' := None)" not_revoked
        sample_transport sample_args "[ClientReady]" "validating_services not_revoked"]
    missing_credential_fails_startup
      [of "''GOOGLE_API_KEY''" "sample_env(''GOOGLE_API_KEY'' \<mapsto> ''revoked'')" not_revoked
        sample_transport sample_args "[ClientReady]" "validating_services not_revoked"]
    missing_credential_fails_startup
      [of "''CARTESIA_API_KEY''" "sample_env(''CARTESIA_API_KEY'' := None)" not_revoked
        sample_transport daily_args "[ClientReady]" "validating_services not_revoked"]
  by (simp add: run_bot_def bot_def build_clients_def validating_services_def
      credential_ok_def not_revoked_def getenv_def sample_env_def create_transport_def
      transport_params_def daily_args_def sample_args_def sample_session_def
      sample_clients_def Let_def)

subsection \<open>The context is append-only\<close>

text \<open>
  C8. At session start the conversation context is the one-entry list holding the fixed
  system prompt, which stays its first entry, and the context only grows at its end:
  whatever the session has gone through, what it goes through next, one event or many,
  leaves the entries there are in place and in order.
\<close>

theorem context_append_only:
  "context_messages (build_session t a cl) = [system_prompt]
   \<and> (\<exists>ys. context_messages (runner_run evs (build_session t a cl)) = system_prompt # ys)
   \<and> (\<exists>ys. context_messages (dispatch e (runner_run evs (build_session t a cl))) =
             context_messages (runner_run evs (build_session t a cl)) @ ys)
   \<and> (\<exists>ys. context_messages (runner_run (evs @ rest) (build_session t a cl)) =
             context_messages (runner_run evs (build_session t a cl)) @ ys)"
proof -
  have al: "aliased (runner_run evs (build_session t a cl))"
    by (rule aliased_reachable)
  have "\<exists>ys. context_messages (runner_run evs (build_session t a cl)) = system_prompt # ys"
    using context_runner_run_extends [OF aliased_build_session, of evs t a cl]
    by (simp add: context_build_session)
  moreover have "\<exists>ys. context_messages (dispatch e (runner_run evs (build_session t a cl))) =
      context_messages (runner_run evs (build_session t a cl)) @ ys"
    by (rule context_dispatch_extends [OF al])
  moreover have "\<exists>ys. context_messages (runner_run (evs @ rest) (build_session t a cl)) =
      context_messages (runner_run evs (build_session t a cl)) @ ys"
    using context_runner_run_extends [OF al, of rest] by (simp add: runner_run_append)
  ultimately show ?thesis by (simp add: context_build_session)
qed

subsection \<open>One list object\<close>

lemma local_is_context: "aliased s \<Longrightarrow> local_messages s = context_messages s"
  by (simp add: aliased_def local_messages_def context_messages_def)

text \<open>
  C10. In every state a session reaches, the variable \<open>messages\<close>, the context and the
  aggregator pair's context refer to one list object. So the ready handler's append to
  \<open>messages\<close> is seen through the context, and each aggregator's append to the context
  is seen through \<open>messages\<close>.
\<close>

theorem messages_context_same_object:
  "(let s = runner_run evs (build_session t a cl) in
      messages s = ctx_messages (llm_context s)
      \<and> ctx_messages (agg_context (context_aggregator s)) = messages s
      \<and> local_messages s = context_messages s
      \<and> context_messages (on_client_ready s) = local_messages s @ [greeting]
      \<and> local_messages (user_aggregator_push u s) =
          local_messages s @ [\<lparr>role = ''user'', content = u\<rparr>]
      \<and> local_messages (assistant_aggregator_push v s) =
          local_messages s @ [\<lparr>role = ''assistant'', content = v\<rparr>])"
proof -
  have al: "aliased (runner_run evs (build_session t a cl))"
    by (rule aliased_reachable)
  have u: "aliased (user_aggregator_push u (runner_run evs (build_session t a cl)))"
    using aliased_dispatch [OF al, of "UserTranscript u"] by simp
  have v: "aliased (assistant_aggregator_push v (runner_run evs (build_session t a cl)))"
    using aliased_dispatch [OF al, of "AssistantReply v"] by simp
  from al have refs:
    "messages (runner_run evs (build_session t a cl)) =
       ctx_messages (llm_context (runner_run evs (build_session t a cl)))"
    "ctx_messages (agg_context (context_aggregator (runner_run evs (build_session t a cl)))) =
       messages (runner_run evs (build_session t a cl))"
    by (simp_all add: aliased_def)
  show ?thesis
    using refs local_is_context [OF al] local_is_context [OF u] local_is_context [OF v]
      context_on_client_ready [OF al] context_user_aggregator_push [OF al, of u]
      context_assistant_aggregator_push [OF al, of v]
    by (simp add: Let_def)
qed

end
